theory Spec2Isabelle
  imports Main
begin

section \<open>PyGMT \<open>Figure.timestamp\<close>: the option builder of src/pygmt/src/timestamp.py\<close>

text \<open>
  The method \<open>timestamp\<close> validates its parameters, assembles the dictionary
  \<open>kwdict\<close> with the keys \<open>T\<close> and \<open>U\<close>, and hands it, serialised, to the module
  \<open>plot\<close> of a GMT session. The model below follows the body of the method line by
  line: Python values are a datatype, the two \<open>raise\<close> statements are error values,
  the dictionary is a finite map that is updated in place, and the calls to the
  collaborators are events appended to a trace.
\<close>

subsection \<open>Python values and their string conversion\<close>

text \<open>
  The scalar values a caller passes for \<open>text\<close>, \<open>label\<close>, \<open>justification\<close>,
  \<open>font\<close>, \<open>timefmt\<close> and for the items of a tuple \<open>offset\<close>. A \<open>string\<close> stands for a
  Python \<open>str\<close>, one list element per character, so that \<open>length\<close> is Python's
  \<open>len\<close>.
\<close>

datatype pyval = PNone | PBool bool | PInt int | PStr string

definition digit_char :: "nat \<Rightarrow> char" where
  "digit_char d = ''0123456789'' ! d"

function str_nat :: "nat \<Rightarrow> string" where
  "str_nat n = (if n < 10 then [digit_char n] else str_nat (n div 10) @ [digit_char (n mod 10)])"
  by pat_completeness auto
termination
  by (relation "measure (\<lambda>n. n)") auto

declare str_nat.simps [simp del]

text \<open>
  \<open>py_str v\<close> is Python's \<open>str(v)\<close>, which is also what an f-string replacement field
  \<open>{v}\<close> without a format specification produces for these types.
\<close>

fun py_str :: "pyval \<Rightarrow> string" where
  "py_str PNone = ''None''"
| "py_str (PBool b) = (if b then ''True'' else ''False'')"
| "py_str (PInt i) = (if i < 0 then CHR ''-'' # str_nat (nat (- i)) else str_nat (nat i))"
| "py_str (PStr s) = s"

text \<open>\<open>str_join sep xs\<close> is Python's \<open>sep.join(xs)\<close>.\<close>

fun str_join :: "string \<Rightarrow> string list \<Rightarrow> string" where
  "str_join sep [] = []"
| "str_join sep [x] = x"
| "str_join sep (x # y # ys) = x @ sep @ str_join sep (y # ys)"

text \<open>
  The parameter \<open>offset\<close> is documented as \<open>str or tuple\<close>. The source tells the two
  apart with \<open>is_nonstr_iter\<close>.

  Modelled from the spec: \<open>pygmt.helpers.is_nonstr_iter\<close> is not part of the source
  file; the spec describes the offset as "either a single length-with-unit string or
  a pair" and recommends a tagged variant. \<open>Seq\<close> is a value for which
  \<open>is_nonstr_iter\<close> holds, given by the list of its items in iteration order (of any
  length), \<open>Single\<close> is a \<open>str\<close>. The test \<open>is_nonstr_iter(offset)\<close> of line 75 is the
  case distinction on this datatype.
\<close>

datatype offset = Single string | Seq "pyval list"

subsection \<open>Engine versions\<close>

text \<open>
  Modelled from the spec: \<open>packaging.version.Version\<close> is an external library; the
  spec asks for "standard semantic-version ordering". A version is its release
  segment, the list of its numeric components (\<open>6.4.0\<close> is \<open>[6, 4, 0]\<close>). As in the
  library, two versions are compared by the lexicographic order of their release
  segments after trailing zeros are removed, so that \<open>6.5\<close> and \<open>6.5.0\<close> are equal.
  Pre-release, post-release, development and local segments are outside the model.
\<close>

datatype version = Version (release: "nat list")

definition cmpkey :: "version \<Rightarrow> nat list" where
  "cmpkey v = rev (dropWhile (\<lambda>x. x = 0) (rev (release v)))"

text \<open>Python's \<open><\<close> and \<open><=\<close> on tuples of integers.\<close>

fun tuple_lt :: "nat list \<Rightarrow> nat list \<Rightarrow> bool" where
  "tuple_lt [] [] = False"
| "tuple_lt [] (y # ys) = True"
| "tuple_lt (x # xs) [] = False"
| "tuple_lt (x # xs) (y # ys) = (if x = y then tuple_lt xs ys else x < y)"

fun tuple_le :: "nat list \<Rightarrow> nat list \<Rightarrow> bool" where
  "tuple_le [] ys = True"
| "tuple_le (x # xs) [] = False"
| "tuple_le (x # xs) (y # ys) = (if x = y then tuple_le xs ys else x < y)"

definition version_lt :: "version \<Rightarrow> version \<Rightarrow> bool" where
  "version_lt a b = tuple_lt (cmpkey a) (cmpkey b)"

definition version_le :: "version \<Rightarrow> version \<Rightarrow> bool" where
  "version_le a b = tuple_le (cmpkey a) (cmpkey b)"

definition v6_4_0 :: version where
  "v6_4_0 = Version [6, 4, 0]"

definition v6_5_0 :: version where
  "v6_5_0 = Version [6, 5, 0]"

subsection \<open>Errors\<close>

text \<open>
  Both validation failures of the source raise \<open>GMTInvalidInput\<close>, with different
  messages. \<open>KeyError\<close> and \<open>TypeError\<close> are what the in-place update
  \<open>kwdict["U"] += s\<close> raises on a missing key or on a value that is not a \<open>str\<close>.
\<close>

datatype error = GMTInvalidInput string | KeyError | TypeError

text \<open>
  The spec names the two validation failures \<open>UnsupportedFeatureError\<close> and
  \<open>InvalidValueError\<close>; in the source they are the two \<open>raise\<close> statements of lines
  89 and 91 to 93.
\<close>

definition UnsupportedFeatureError :: error where
  "UnsupportedFeatureError =
     GMTInvalidInput (''The parameter '' @ [CHR 0x27] @ ''text'' @ [CHR 0x27] @ '' requires GMT>=6.5.0.'')"

definition InvalidValueError :: error where
  "InvalidValueError =
     GMTInvalidInput (''The parameter '' @ [CHR 0x27] @ ''text'' @ [CHR 0x27] @ '' must be less than 64 characters.'')"

definition bind_err :: "error + 'a \<Rightarrow> ('a \<Rightarrow> error + 'b) \<Rightarrow> error + 'b" where
  "bind_err r f = (case r of Inl e \<Rightarrow> Inl e | Inr x \<Rightarrow> f x)"

subsection \<open>The option dictionary\<close>

type_synonym pydict = "string \<rightharpoonup> pyval"

text \<open>\<open>dict_iadd d k s\<close> is the statement \<open>d[k] += s\<close> for a \<open>str\<close> \<open>s\<close>.\<close>

definition dict_iadd :: "pydict \<Rightarrow> string \<Rightarrow> string \<Rightarrow> error + pydict" where
  "dict_iadd d k s =
     (case d k of
        None \<Rightarrow> Inl KeyError
      | Some (PStr u) \<Rightarrow> Inr (d(k \<mapsto> PStr (u @ s)))
      | Some _ \<Rightarrow> Inl TypeError)"

text \<open>
  Lines 69 to 94 of the source: "Build the options passed to the plot module". The
  result is the dictionary \<open>kwdict\<close> as it stands before the session is opened, or
  the exception raised on the way.
\<close>

definition timestamp_kwdict ::
  "version \<Rightarrow> pyval \<Rightarrow> pyval \<Rightarrow> pyval \<Rightarrow> offset \<Rightarrow> error + pydict" where
  "timestamp_kwdict gmt_version text label justification offset =
     bind_err
       (if label \<noteq> PNone
        then dict_iadd [''T'' \<mapsto> PBool True, ''U'' \<mapsto> PStr ''''] ''U'' (py_str label)
        else Inr [''T'' \<mapsto> PBool True, ''U'' \<mapsto> PStr ''''])
     (\<lambda>kwdict. bind_err (dict_iadd kwdict ''U'' (''+j'' @ py_str justification))
     (\<lambda>kwdict. bind_err
       (case offset of
          Seq items \<Rightarrow> dict_iadd kwdict ''U'' (''+o'' @ str_join ''/'' (map py_str items))
        | Single s \<Rightarrow>
            if CHR ''/'' \<notin> set s \<and> version_le gmt_version v6_4_0
            then dict_iadd kwdict ''U'' (''+o'' @ s @ ''/'' @ s)
            else dict_iadd kwdict ''U'' (''+o'' @ s))
     (\<lambda>kwdict.
        if text \<noteq> PNone then
          if version_lt gmt_version v6_5_0 then Inl UnsupportedFeatureError
          else if length (py_str text) > 64 then Inl InvalidValueError
          else dict_iadd kwdict ''U'' (''+t'' @ py_str text)
        else Inr kwdict)))"

subsection \<open>The calls to the collaborators\<close>

text \<open>
  Modelled from the spec: the figure's \<open>_preprocess\<close>, the \<open>Session\<close> context manager
  with its \<open>call_module\<close>, and \<open>build_arg_string\<close> are not part of the source file.
  The spec treats them as opaque collaborators: preprocessing is "a no-argument
  side-effecting call", the session is "a scoped-acquisition resource" that executes
  "a named module with an argument string" and is released at scope exit. Each call
  is an event of a trace; \<open>build_arg_string\<close> is a parameter of the model. Each
  collaborator is taken to return normally: an error of the engine, which the source
  does not catch, is outside the model.
\<close>

datatype event =
    Preprocess
  | SessionEnter
  | CallModule string string
  | SessionExit

text \<open>
  The method itself. It takes the trace of the calls made so far and returns the
  outcome (\<open>Inr ()\<close> for a normal return) with the extended trace.
\<close>

definition timestamp ::
  "(pydict \<Rightarrow> pydict \<Rightarrow> string) \<Rightarrow> version \<Rightarrow> event list \<Rightarrow>
   pyval \<Rightarrow> pyval \<Rightarrow> pyval \<Rightarrow> offset \<Rightarrow> pyval \<Rightarrow> pyval \<Rightarrow> (error + unit) \<times> event list" where
  "timestamp build_arg_string gmt_version trace text label justification offset font timefmt =
     (let trace = trace @ [Preprocess] in
      case timestamp_kwdict gmt_version text label justification offset of
        Inl e \<Rightarrow> (Inl e, trace)
      | Inr kwdict \<Rightarrow>
          (Inr (),
           trace @
           [SessionEnter,
            CallModule ''plot''
              (build_arg_string kwdict
                 [''FONT_LOGO'' \<mapsto> font, ''FORMAT_TIME_STAMP'' \<mapsto> timefmt]),
            SessionExit]))"

text \<open>The default values of the parameters (lines 15 to 20).\<close>

definition default_text :: pyval where "default_text = PNone"
definition default_label :: pyval where "default_label = PNone"
definition default_justification :: pyval where "default_justification = PStr ''BL''"
definition default_offset :: offset where "default_offset = Seq [PStr ''-54p'', PStr ''-54p'']"
definition default_font :: pyval where "default_font = PStr ''Helvetica,black''"
definition default_timefmt :: pyval where "default_timefmt = PStr ''%Y %b %d %H:%M:%S''"

subsection \<open>Notions used to state the properties\<close>

text \<open>
  The pieces of the \<open>U\<close> value: "the label verbatim (if supplied, otherwise
  empty)", "\<open>+t\<close> plus the text (only if text is supplied)", and the offset fragment
  of lines 75 to 83 in closed form. \<open>plot_session\<close> is the trace of the \<open>with\<close> block
  of lines 96 to 102 for a given dictionary. \<open>sample_build_arg_string\<close> is a stand-in
  for the serialiser, used where a property is instantiated at a concrete input: it
  renders the \<open>U\<close> entry only.
\<close>

definition label_part :: "pyval \<Rightarrow> string" where
  "label_part label = (if label = PNone then [] else py_str label)"

definition text_part :: "pyval \<Rightarrow> string" where
  "text_part text = (if text = PNone then [] else ''+t'' @ py_str text)"

definition offset_part :: "version \<Rightarrow> offset \<Rightarrow> string" where
  "offset_part gmt_version offset =
     (case offset of
        Seq items \<Rightarrow> ''+o'' @ str_join ''/'' (map py_str items)
      | Single s \<Rightarrow>
          if CHR ''/'' \<notin> set s \<and> version_le gmt_version v6_4_0
          then ''+o'' @ s @ ''/'' @ s else ''+o'' @ s)"

definition sample_build_arg_string :: "pydict \<Rightarrow> pydict \<Rightarrow> string" where
  "sample_build_arg_string kwdict confdict =
     (case kwdict ''U'' of Some u \<Rightarrow> ''-T -U'' @ py_str u | None \<Rightarrow> ''-T'')"

definition plot_session :: "(pydict \<Rightarrow> pydict \<Rightarrow> string) \<Rightarrow> pydict \<Rightarrow> pyval \<Rightarrow> pyval \<Rightarrow> event list" where
  "plot_session build_arg_string kwdict font timefmt =
     [SessionEnter,
      CallModule ''plot''
        (build_arg_string kwdict [''FONT_LOGO'' \<mapsto> font, ''FORMAT_TIME_STAMP'' \<mapsto> timefmt]),
      SessionExit]"

section \<open>Properties\<close>

subsection \<open>Auxiliary facts\<close>

lemma tuple_le_iff: "tuple_le xs ys \<longleftrightarrow> \<not> tuple_lt ys xs"
  by (induction xs ys rule: tuple_lt.induct) auto

lemma version_le_iff: "version_le a b \<longleftrightarrow> \<not> version_lt b a"
  by (simp add: version_le_def version_lt_def tuple_le_iff)

lemma cmpkey_640: "cmpkey v6_4_0 = [6, 4]"
  by (simp add: cmpkey_def v6_4_0_def)

lemma cmpkey_650: "cmpkey v6_5_0 = [6, 5]"
  by (simp add: cmpkey_def v6_5_0_def)

lemma lt_640_650: "version_lt v6_4_0 v6_5_0"
  by (simp add: version_lt_def cmpkey_640 cmpkey_650)

lemma errors_distinct: "UnsupportedFeatureError \<noteq> InvalidValueError"
  by (simp add: UnsupportedFeatureError_def InvalidValueError_def)

lemma dict_iadd_U:
  "dict_iadd [''T'' \<mapsto> t, ''U'' \<mapsto> PStr u] ''U'' s = Inr [''T'' \<mapsto> t, ''U'' \<mapsto> PStr (u @ s)]"
  by (simp add: dict_iadd_def)

lemma timestamp_kwdict_eq:
  "timestamp_kwdict v text label j off =
     (if text \<noteq> PNone \<and> version_lt v v6_5_0 then Inl UnsupportedFeatureError
      else if text \<noteq> PNone \<and> 64 < length (py_str text) then Inl InvalidValueError
      else Inr [''T'' \<mapsto> PBool True,
                ''U'' \<mapsto> PStr (label_part label @ ''+j'' @ py_str j @ offset_part v off @ text_part text)])"
  by (cases off)
     (simp_all add: timestamp_kwdict_def bind_err_def dict_iadd_U label_part_def text_part_def
        offset_part_def)


lemma timestamp_eq:
  "timestamp bas v tr text label j off font tf =
     (if text \<noteq> PNone \<and> version_lt v v6_5_0 then (Inl UnsupportedFeatureError, tr @ [Preprocess])
      else if text \<noteq> PNone \<and> 64 < length (py_str text) then (Inl InvalidValueError, tr @ [Preprocess])
      else (Inr (),
            tr @ [Preprocess] @
            plot_session bas
              [''T'' \<mapsto> PBool True,
               ''U'' \<mapsto> PStr (label_part label @ ''+j'' @ py_str j @ offset_part v off @ text_part text)]
              font tf))"
  by (simp add: timestamp_def timestamp_kwdict_eq plot_session_def)

lemma le_650_650: "version_le v6_5_0 v6_5_0"
  by (simp add: version_le_def cmpkey_650)

lemma le_640_640: "version_le v6_4_0 v6_4_0"
  by (simp add: version_le_def cmpkey_640)

lemma not_le_650_640: "\<not> version_le v6_5_0 v6_4_0"
  by (simp add: version_le_def cmpkey_650 cmpkey_640)

lemma not_lt_650_650: "\<not> version_lt v6_5_0 v6_5_0"
  by (simp add: version_lt_def cmpkey_650)

lemma offset_part_prefix: "\<exists>frag. offset_part v off = ''+o'' @ frag"
  by (cases off) (simp_all add: offset_part_def)

lemma timestamp_returns_iff:
  "fst (timestamp bas v tr text label j off font tf) = Inr () \<longleftrightarrow>
     text = PNone \<or> (\<not> version_lt v v6_5_0 \<and> length (py_str text) \<le> 64)"
  by (auto simp add: timestamp_eq)

lemma timestamp_returns:
  assumes "fst (timestamp bas v tr text label j off font tf) = Inr ()"
  shows "snd (timestamp bas v tr text label j off font tf) =
           tr @ [Preprocess] @
           plot_session bas
             [''T'' \<mapsto> PBool True,
              ''U'' \<mapsto> PStr (label_part label @ ''+j'' @ py_str j @ offset_part v off @ text_part text)]
             font tf"
proof -
  from assms have "text = PNone \<or> (\<not> version_lt v v6_5_0 \<and> length (py_str text) \<le> 64)"
    by (simp only: timestamp_returns_iff)
  then show ?thesis
    by (auto simp add: timestamp_eq)
qed

subsection \<open>The version gate of \<open>text\<close>\<close>

text \<open>
  Claim C1. For every call where \<open>text\<close> is not \<open>None\<close>: if the engine version is
  strictly below 6.5.0, the call fails with the \<open>UnsupportedFeatureError\<close> and the
  only collaborator call made is the preprocessing, so no command has been executed;
  if the version is 6.5.0 or higher and the text has at most 64 characters, the call
  returns normally and the \<open>U\<close> value of the dictionary passed to the session ends
  with \<open>+t\<close> followed by the text.
\<close>

theorem text_version_gate:
  assumes "text \<noteq> PNone"
  shows "(version_lt v v6_5_0 \<longrightarrow>
            timestamp bas v tr text label j off font tf =
              (Inl UnsupportedFeatureError, tr @ [Preprocess]))
       \<and> (version_le v6_5_0 v \<and> length (py_str text) \<le> 64 \<longrightarrow>
            (\<exists>kwdict u.
               timestamp bas v tr text label j off font tf =
                 (Inr (), tr @ [Preprocess] @ plot_session bas kwdict font tf)
             \<and> kwdict ''U'' = Some (PStr (u @ ''+t'' @ py_str text))))"
proof (intro conjI impI)
  assume "version_lt v v6_5_0"
  with assms show "timestamp bas v tr text label j off font tf =
      (Inl UnsupportedFeatureError, tr @ [Preprocess])"
    by (simp add: timestamp_eq)
next
  assume a: "version_le v6_5_0 v \<and> length (py_str text) \<le> 64"
  let ?u = "label_part label @ ''+j'' @ py_str j @ offset_part v off"
  let ?kw = "[''T'' \<mapsto> PBool True, ''U'' \<mapsto> PStr (?u @ ''+t'' @ py_str text)]"
  from a have nlt: "\<not> version_lt v v6_5_0"
    by (simp add: version_le_iff)
  from a nlt assms
  have "timestamp bas v tr text label j off font tf =
          (Inr (), tr @ [Preprocess] @ plot_session bas ?kw font tf)"
    by (simp add: timestamp_eq text_part_def)
  moreover have "?kw ''U'' = Some (PStr (?u @ ''+t'' @ py_str text))"
    by simp
  ultimately show "\<exists>kwdict u.
      timestamp bas v tr text label j off font tf =
        (Inr (), tr @ [Preprocess] @ plot_session bas kwdict font tf)
      \<and> kwdict ''U'' = Some (PStr (u @ ''+t'' @ py_str text))"
    by blast
qed

text \<open>
  The property at \<open>text="hello"\<close>: version 6.4.0 fails, version 6.5.0 yields a \<open>U\<close>
  value ending in \<open>+thello\<close>.
\<close>

theorem text_version_gate_witness:
  "timestamp sample_build_arg_string v6_4_0 [] (PStr ''hello'') default_label
     default_justification default_offset default_font default_timefmt =
     (Inl UnsupportedFeatureError, [Preprocess])
   \<and> (\<exists>kwdict u.
        timestamp sample_build_arg_string v6_5_0 [] (PStr ''hello'') default_label
          default_justification default_offset default_font default_timefmt =
          (Inr (), [Preprocess] @ plot_session sample_build_arg_string kwdict default_font default_timefmt)
        \<and> kwdict ''U'' = Some (PStr (u @ ''+thello'')))"
  using text_version_gate [of "PStr ''hello''" v6_4_0 sample_build_arg_string "[]" default_label
          default_justification default_offset default_font default_timefmt]
        text_version_gate [of "PStr ''hello''" v6_5_0 sample_build_arg_string "[]" default_label
          default_justification default_offset default_font default_timefmt]
  by (simp add: lt_640_650 le_650_650)

subsection \<open>The length limit of \<open>text\<close>\<close>

text \<open>
  Claim C2. For every supplied \<open>text\<close> on an engine version of at least 6.5.0: if
  its string conversion has at most 64 characters the call returns normally, and if
  it has 65 or more characters the call fails with the \<open>InvalidValueError\<close>, the
  preprocessing being the only collaborator call made.
\<close>

theorem text_length_limit:
  assumes "text \<noteq> PNone" and "version_le v6_5_0 v"
  shows "(length (py_str text) \<le> 64 \<longrightarrow>
            fst (timestamp bas v tr text label j off font tf) = Inr ())
       \<and> (65 \<le> length (py_str text) \<longrightarrow>
            timestamp bas v tr text label j off font tf =
              (Inl InvalidValueError, tr @ [Preprocess]))"
proof -
  from assms(2) have "\<not> version_lt v v6_5_0"
    by (simp add: version_le_iff)
  with assms(1) show ?thesis
    by (simp add: timestamp_eq)
qed

text \<open>
  A text of exactly 64 characters is accepted, one of 65 characters is rejected.
\<close>

theorem text_length_limit_witness:
  "fst (timestamp sample_build_arg_string v6_5_0 [] (PStr (replicate 64 (CHR ''x''))) default_label
          default_justification default_offset default_font default_timefmt) = Inr ()
   \<and> timestamp sample_build_arg_string v6_5_0 [] (PStr (replicate 65 (CHR ''x''))) default_label
          default_justification default_offset default_font default_timefmt =
        (Inl InvalidValueError, [Preprocess])"
  using text_length_limit [of "PStr (replicate 64 (CHR ''x''))" v6_5_0 sample_build_arg_string "[]"
          default_label default_justification default_offset default_font default_timefmt]
        text_length_limit [of "PStr (replicate 65 (CHR ''x''))" v6_5_0 sample_build_arg_string "[]"
          default_label default_justification default_offset default_font default_timefmt]
  by (simp add: le_650_650)

subsection \<open>The offset fragment\<close>

text \<open>
  Claim C3. For every single-string \<open>offset\<close> that does not contain the character
  \<open>/\<close>, in a call that returns: the \<open>U\<close> value handed to the session has, right
  after the justification, the fragment \<open>+o{offset}/{offset}\<close> if the engine version
  is less than or equal to 6.4.0, and \<open>+o{offset}\<close> otherwise.
\<close>

theorem single_offset_fragment:
  assumes "CHR ''/'' \<notin> set s"
    and "fst (timestamp bas v tr text label j (Single s) font tf) = Inr ()"
  shows "snd (timestamp bas v tr text label j (Single s) font tf) =
           tr @ [Preprocess] @
           plot_session bas
             [''T'' \<mapsto> PBool True,
              ''U'' \<mapsto> PStr (label_part label @ ''+j'' @ py_str j @
                         (if version_le v v6_4_0 then ''+o'' @ s @ ''/'' @ s else ''+o'' @ s) @
                         text_part text)]
             font tf"
  using assms by (simp add: timestamp_returns offset_part_def)

text \<open>
  \<open>offset="10p"\<close> gives \<open>+o10p/10p\<close> under 6.4.0 and \<open>+o10p\<close> under 6.5.0.
\<close>

theorem single_offset_fragment_witness:
  "snd (timestamp sample_build_arg_string v6_4_0 [] default_text default_label
          default_justification (Single ''10p'') default_font default_timefmt) =
     [Preprocess] @
     plot_session sample_build_arg_string
       [''T'' \<mapsto> PBool True, ''U'' \<mapsto> PStr ''+jBL+o10p/10p''] default_font default_timefmt
   \<and> snd (timestamp sample_build_arg_string v6_5_0 [] default_text default_label
          default_justification (Single ''10p'') default_font default_timefmt) =
     [Preprocess] @
     plot_session sample_build_arg_string
       [''T'' \<mapsto> PBool True, ''U'' \<mapsto> PStr ''+jBL+o10p''] default_font default_timefmt"
  using single_offset_fragment [of "''10p''" sample_build_arg_string v6_4_0 "[]" default_text
          default_label default_justification default_font default_timefmt]
        single_offset_fragment [of "''10p''" sample_build_arg_string v6_5_0 "[]" default_text
          default_label default_justification default_font default_timefmt]
  by (simp add: timestamp_eq default_text_def default_label_def default_justification_def
        le_640_640 not_le_650_640 label_part_def text_part_def)

text \<open>
  Claim C4. For every two-element sequence \<open>offset = (x, y)\<close>, in a call that
  returns: the offset fragment of the \<open>U\<close> value is \<open>+o{x}/{y}\<close>, whatever the engine
  version.
\<close>

theorem pair_offset_fragment:
  assumes "fst (timestamp bas v tr text label j (Seq [x, y]) font tf) = Inr ()"
  shows "snd (timestamp bas v tr text label j (Seq [x, y]) font tf) =
           tr @ [Preprocess] @
           plot_session bas
             [''T'' \<mapsto> PBool True,
              ''U'' \<mapsto> PStr (label_part label @ ''+j'' @ py_str j @
                         ''+o'' @ py_str x @ ''/'' @ py_str y @ text_part text)]
             font tf"
  using assms by (simp add: timestamp_returns offset_part_def)

text \<open>
  The default pair under 6.4.0, and a pair of integers under 6.5.0, whose items are
  converted to strings.
\<close>

theorem pair_offset_fragment_witness:
  "snd (timestamp sample_build_arg_string v6_4_0 [] default_text default_label
          default_justification (Seq [PStr ''-54p'', PStr ''-54p'']) default_font default_timefmt) =
     [Preprocess] @
     plot_session sample_build_arg_string
       [''T'' \<mapsto> PBool True, ''U'' \<mapsto> PStr ''+jBL+o-54p/-54p''] default_font default_timefmt
   \<and> snd (timestamp sample_build_arg_string v6_5_0 [] default_text default_label
          default_justification (Seq [PInt 3, PInt (- 12)]) default_font default_timefmt) =
     [Preprocess] @
     plot_session sample_build_arg_string
       [''T'' \<mapsto> PBool True, ''U'' \<mapsto> PStr ''+jBL+o3/-12''] default_font default_timefmt"
  using pair_offset_fragment [of sample_build_arg_string v6_4_0 "[]" default_text
          default_label default_justification "PStr ''-54p''" "PStr ''-54p''" default_font default_timefmt]
        pair_offset_fragment [of sample_build_arg_string v6_5_0 "[]" default_text
          default_label default_justification "PInt 3" "PInt (- 12)" default_font default_timefmt]
  by (simp add: timestamp_eq default_text_def default_label_def default_justification_def
        label_part_def text_part_def str_nat.simps digit_char_def)

subsection \<open>The shape of the option dictionary\<close>

text \<open>
  Claim C5. For every call that returns, the dictionary handed to the session has
  exactly the keys \<open>T\<close> and \<open>U\<close>, \<open>T\<close> is \<open>True\<close>, and the \<open>U\<close> string is assembled
  in the fixed order: the label (if supplied), \<open>+j\<close> with the justification, the
  offset fragment of the given offset, which starts with \<open>+o\<close>, and \<open>+t\<close> with the
  text (if supplied).
\<close>

theorem option_dictionary_shape:
  assumes "fst (timestamp bas v tr text label j off font tf) = Inr ()"
  shows "\<exists>kwdict.
           snd (timestamp bas v tr text label j off font tf) =
             tr @ [Preprocess] @ plot_session bas kwdict font tf
         \<and> dom kwdict = {''T'', ''U''}
         \<and> kwdict ''T'' = Some (PBool True)
         \<and> kwdict ''U'' =
             Some (PStr (label_part label @ ''+j'' @ py_str j @ offset_part v off @ text_part text))
         \<and> (\<exists>frag. offset_part v off = ''+o'' @ frag)"
proof -
  let ?kw = "[''T'' \<mapsto> PBool True,
              ''U'' \<mapsto> PStr (label_part label @ ''+j'' @ py_str j @ offset_part v off @ text_part text)]"
  from assms
  have "snd (timestamp bas v tr text label j off font tf) =
          tr @ [Preprocess] @ plot_session bas ?kw font tf"
    by (rule timestamp_returns)
  moreover have "dom ?kw = {''T'', ''U''}"
    by auto
  moreover have "?kw ''T'' = Some (PBool True)"
    by simp
  moreover have "?kw ''U'' =
      Some (PStr (label_part label @ ''+j'' @ py_str j @ offset_part v off @ text_part text))"
    by simp
  moreover have "\<exists>frag. offset_part v off = ''+o'' @ frag"
    by (rule offset_part_prefix)
  ultimately show ?thesis
    by blast
qed

text \<open>
  With \<open>label="Powered by PyGMT"\<close> and the defaults otherwise, the \<open>U\<close> value is
  \<open>Powered by PyGMT+jBL+o-54p/-54p\<close>: the label, immediately followed by \<open>+jBL\<close> and
  by the fragment of the default offset. With a single offset and a text under
  6.5.0 all four pieces appear, in this order.
\<close>

theorem option_dictionary_shape_witness:
  "(\<exists>kwdict.
      snd (timestamp sample_build_arg_string v6_5_0 [] default_text (PStr ''Powered by PyGMT'')
             default_justification default_offset default_font default_timefmt) =
        [Preprocess] @ plot_session sample_build_arg_string kwdict default_font default_timefmt
      \<and> dom kwdict = {''T'', ''U''}
      \<and> kwdict ''T'' = Some (PBool True)
      \<and> kwdict ''U'' = Some (PStr ''Powered by PyGMT+jBL+o-54p/-54p''))
   \<and> (\<exists>kwdict.
      snd (timestamp sample_build_arg_string v6_5_0 [] (PStr ''hello'') (PStr ''GMT'')
             (PStr ''TR'') (Single ''1c/2c'') default_font default_timefmt) =
        [Preprocess] @ plot_session sample_build_arg_string kwdict default_font default_timefmt
      \<and> dom kwdict = {''T'', ''U''}
      \<and> kwdict ''T'' = Some (PBool True)
      \<and> kwdict ''U'' = Some (PStr ''GMT+jTR+o1c/2c+thello''))"
  using option_dictionary_shape [of sample_build_arg_string v6_5_0 "[]" default_text
          "PStr ''Powered by PyGMT''" default_justification default_offset default_font default_timefmt]
        option_dictionary_shape [of sample_build_arg_string v6_5_0 "[]" "PStr ''hello''"
          "PStr ''GMT''" "PStr ''TR''" "Single ''1c/2c''" default_font default_timefmt]
  by (simp add: timestamp_eq default_text_def default_justification_def default_offset_def
        label_part_def text_part_def offset_part_def not_lt_650_650)

text \<open>
  Claim C6. A call with all parameters at their defaults opens a session and calls
  the module \<open>plot\<close> with the serialisation of exactly the dictionary
  \<open>{T: True, U: "+jBL+o-54p/-54p"}\<close> and of the configuration
  \<open>{FONT_LOGO: "Helvetica,black", FORMAT_TIME_STAMP: "%Y %b %d %H:%M:%S"}\<close>, for every
  engine version.
\<close>

theorem default_call:
  "timestamp bas v tr default_text default_label default_justification default_offset
     default_font default_timefmt =
     (Inr (),
      tr @
      [Preprocess,
       SessionEnter,
       CallModule ''plot''
         (bas [''T'' \<mapsto> PBool True, ''U'' \<mapsto> PStr ''+jBL+o-54p/-54p'']
              [''FONT_LOGO'' \<mapsto> PStr ''Helvetica,black'',
               ''FORMAT_TIME_STAMP'' \<mapsto> PStr ''%Y %b %d %H:%M:%S'']),
       SessionExit])"
  by (simp add: timestamp_eq plot_session_def default_text_def default_label_def
        default_justification_def default_offset_def default_font_def default_timefmt_def
        label_part_def text_part_def offset_part_def)

subsection \<open>Effects on the failing path\<close>

text \<open>
  Claim C7 says that on a call that fails validation no collaborator operation at
  all is invoked. The source calls \<open>self._preprocess()\<close> in line 67, before it builds
  or validates anything: with \<open>text="PyGMT"\<close> under version 6.4.0 the call fails and
  the preprocessing has been invoked.
\<close>

theorem no_collaborator_call_on_failure_counterexample:
  "fst (timestamp sample_build_arg_string v6_4_0 [] (PStr ''PyGMT'') default_label
          default_justification default_offset default_font default_timefmt) =
     Inl UnsupportedFeatureError
   \<and> Preprocess \<in> set (snd (timestamp sample_build_arg_string v6_4_0 [] (PStr ''PyGMT'')
          default_label default_justification default_offset default_font default_timefmt))"
  by (simp add: timestamp_eq lt_640_650)

text \<open>
  Claim C7, amended. For every call that ends in an exception, the exception is one
  of the two validation failures, and the figure preprocessing is the one and only
  collaborator operation invoked by the call: no session is opened and no command is
  executed.
\<close>

theorem validation_failure_trace:
  assumes "fst (timestamp bas v tr text label j off font tf) = Inl e"
  shows "snd (timestamp bas v tr text label j off font tf) = tr @ [Preprocess]
       \<and> (e = UnsupportedFeatureError \<or> e = InvalidValueError)"
proof (cases "text \<noteq> PNone \<and> version_lt v v6_5_0")
  case True
  with assms show ?thesis
    by (simp add: timestamp_eq)
next
  case False
  note not_gate = this
  show ?thesis
  proof (cases "text \<noteq> PNone \<and> 64 < length (py_str text)")
    case True
    with not_gate assms show ?thesis
      by (simp add: timestamp_eq)
  next
    case False
    with not_gate have "fst (timestamp bas v tr text label j off font tf) = Inr ()"
      by (simp add: timestamp_eq)
    with assms show ?thesis
      by simp
  qed
qed

text \<open>
  A text of 70 characters under 6.5.0, with an earlier trace that is kept, and an
  integer text under 6.4.0.
\<close>

theorem validation_failure_trace_witness:
  "snd (timestamp sample_build_arg_string v6_5_0 [SessionEnter, SessionExit]
          (PStr (replicate 70 (CHR ''z''))) default_label default_justification default_offset
          default_font default_timefmt) =
     [SessionEnter, SessionExit, Preprocess]
   \<and> snd (timestamp sample_build_arg_string v6_4_0 [] (PInt 7) default_label
          default_justification default_offset default_font default_timefmt) = [Preprocess]"
  using validation_failure_trace [of sample_build_arg_string v6_5_0 "[SessionEnter, SessionExit]"
          "PStr (replicate 70 (CHR ''z''))" default_label default_justification default_offset
          default_font default_timefmt InvalidValueError]
        validation_failure_trace [of sample_build_arg_string v6_4_0 "[]"
          "PInt 7" default_label default_justification default_offset
          default_font default_timefmt UnsupportedFeatureError]
  by (simp add: timestamp_eq not_lt_650_650 lt_640_650)

subsection \<open>The justification is not validated\<close>

text \<open>
  Claim C8. For every string \<open>justification\<close>, well-formed or not, the outcome of
  the call is the outcome for any other justification, so no failure depends on it;
  and when the call returns, the \<open>U\<close> value handed to the session has, right after
  the label, \<open>+j\<close> immediately followed by the given string verbatim.
\<close>

theorem justification_not_validated:
  "fst (timestamp bas v tr text label (PStr j) off font tf) =
     fst (timestamp bas v tr text label j' off font tf)
   \<and> (fst (timestamp bas v tr text label (PStr j) off font tf) = Inr () \<longrightarrow>
        (\<exists>kwdict rest.
           snd (timestamp bas v tr text label (PStr j) off font tf) =
             tr @ [Preprocess] @ plot_session bas kwdict font tf
         \<and> kwdict ''U'' = Some (PStr (label_part label @ ''+j'' @ j @ rest))))"
proof (intro conjI impI)
  show "fst (timestamp bas v tr text label (PStr j) off font tf) =
          fst (timestamp bas v tr text label j' off font tf)"
    by (simp add: timestamp_eq)
next
  assume ok: "fst (timestamp bas v tr text label (PStr j) off font tf) = Inr ()"
  let ?rest = "offset_part v off @ text_part text"
  let ?kw = "[''T'' \<mapsto> PBool True, ''U'' \<mapsto> PStr (label_part label @ ''+j'' @ j @ ?rest)]"
  from ok have "snd (timestamp bas v tr text label (PStr j) off font tf) =
      tr @ [Preprocess] @ plot_session bas ?kw font tf"
    by (simp add: timestamp_returns)
  moreover have "?kw ''U'' = Some (PStr (label_part label @ ''+j'' @ j @ ?rest))"
    by simp
  ultimately show "\<exists>kwdict rest.
      snd (timestamp bas v tr text label (PStr j) off font tf) =
        tr @ [Preprocess] @ plot_session bas kwdict font tf
      \<and> kwdict ''U'' = Some (PStr (label_part label @ ''+j'' @ j @ rest))"
    by blast
qed

text \<open>
  The malformed code \<open>XYZ!\<close> is accepted and appears as \<open>+jXYZ!\<close>.
\<close>

theorem justification_not_validated_witness:
  "fst (timestamp sample_build_arg_string v6_4_0 [] default_text default_label (PStr ''XYZ!'')
          default_offset default_font default_timefmt) = Inr ()
   \<and> (\<exists>kwdict rest.
        snd (timestamp sample_build_arg_string v6_4_0 [] default_text default_label (PStr ''XYZ!'')
               default_offset default_font default_timefmt) =
          [Preprocess] @ plot_session sample_build_arg_string kwdict default_font default_timefmt
        \<and> kwdict ''U'' = Some (PStr (''+jXYZ!'' @ rest)))"
  using justification_not_validated [of sample_build_arg_string v6_4_0 "[]" default_text
          default_label "''XYZ!''" default_offset default_font default_timefmt default_justification]
  by (simp add: timestamp_eq default_text_def default_label_def label_part_def)

subsection \<open>The order of the two checks\<close>

text \<open>
  Claim C9. When \<open>text\<close> is supplied, the engine version is below 6.5.0 and the
  string conversion of the text is longer than 64 characters, the call fails with
  the \<open>UnsupportedFeatureError\<close> of the version check, not with the
  \<open>InvalidValueError\<close> of the length check.
\<close>

theorem version_check_first:
  assumes "text \<noteq> PNone" and "version_lt v v6_5_0" and "64 < length (py_str text)"
  shows "fst (timestamp bas v tr text label j off font tf) = Inl UnsupportedFeatureError
       \<and> fst (timestamp bas v tr text label j off font tf) \<noteq> Inl InvalidValueError"
  using assms by (simp add: timestamp_eq errors_distinct)

text \<open>
  A text of 65 characters under version 6.4.0.
\<close>

theorem version_check_first_witness:
  "fst (timestamp sample_build_arg_string v6_4_0 [] (PStr (replicate 65 (CHR ''x''))) default_label
          default_justification default_offset default_font default_timefmt) =
     Inl UnsupportedFeatureError
   \<and> fst (timestamp sample_build_arg_string v6_4_0 [] (PStr (replicate 65 (CHR ''x''))) default_label
          default_justification default_offset default_font default_timefmt) \<noteq>
     Inl InvalidValueError"
  using version_check_first [of "PStr (replicate 65 (CHR ''x''))" v6_4_0 sample_build_arg_string "[]"
          default_label default_justification default_offset default_font default_timefmt]
  by (auto simp add: lt_640_650)

subsection \<open>Sequences of any length as offset\<close>

text \<open>
  Claim C10. For every non-string iterable \<open>offset\<close> of any length, a call whose
  \<open>text\<close> is absent or passes the two checks returns normally, and the offset
  fragment of the \<open>U\<close> value is \<open>+o\<close> followed by the string conversions of all items
  joined with \<open>/\<close>.
\<close>

theorem sequence_offset_any_length:
  assumes "text = PNone \<or> (version_le v6_5_0 v \<and> length (py_str text) \<le> 64)"
  shows "timestamp bas v tr text label j (Seq items) font tf =
           (Inr (),
            tr @ [Preprocess] @
            plot_session bas
              [''T'' \<mapsto> PBool True,
               ''U'' \<mapsto> PStr (label_part label @ ''+j'' @ py_str j @
                          ''+o'' @ str_join ''/'' (map py_str items) @ text_part text)]
              font tf)"
proof -
  from assms have "text = PNone \<or> (\<not> version_lt v v6_5_0 \<and> length (py_str text) \<le> 64)"
    by (simp add: version_le_iff)
  then show ?thesis
    by (auto simp add: timestamp_eq offset_part_def)
qed

text \<open>
  A three-element tuple yields \<open>+o1p/2p/3p\<close>; the empty tuple yields the bare
  fragment \<open>+o\<close>.
\<close>

theorem sequence_offset_any_length_witness:
  "timestamp sample_build_arg_string v6_4_0 [] default_text default_label default_justification
     (Seq [PStr ''1p'', PStr ''2p'', PStr ''3p'']) default_font default_timefmt =
     (Inr (),
      [Preprocess] @
      plot_session sample_build_arg_string
        [''T'' \<mapsto> PBool True, ''U'' \<mapsto> PStr ''+jBL+o1p/2p/3p''] default_font default_timefmt)
   \<and> timestamp sample_build_arg_string v6_5_0 [] (PStr ''hi'') default_label default_justification
     (Seq []) default_font default_timefmt =
     (Inr (),
      [Preprocess] @
      plot_session sample_build_arg_string
        [''T'' \<mapsto> PBool True, ''U'' \<mapsto> PStr ''+jBL+o+thi''] default_font default_timefmt)"
  using sequence_offset_any_length [of default_text v6_4_0 sample_build_arg_string "[]"
          default_label default_justification "[PStr ''1p'', PStr ''2p'', PStr ''3p'']"
          default_font default_timefmt]
        sequence_offset_any_length [of "PStr ''hi''" v6_5_0 sample_build_arg_string "[]"
          default_label default_justification "[]" default_font default_timefmt]
  by (simp add: default_text_def default_label_def default_justification_def label_part_def
        text_part_def le_650_650)

end
